theory Spec2Isabelle
  imports Complex_Main "HOL-Library.Sublist" "HOL-Library.Multiset"
begin

section \<open>Data model\<close>

text \<open>
  The module-level table \<^verbatim>\<open>locations = pd.DataFrame({...})\<close> of \<^verbatim>\<open>prototype.py\<close> is a
  list of rows in declaration order. A row has the five columns of the table. The
  coordinates are Python floats; they are only stored, compared for equality and passed
  on, so they are written as the real numbers their literals denote. The radii are
  Python integers.
\<close>

record location =
  name :: string
  latitude :: real
  longitude :: real
  type :: string
  radius :: int

definition locations :: "location list" where
  "locations =
    [\<lparr>name = ''Main Gate'', latitude = -0.3918, longitude = 36.9630,
       type = ''Entry'', radius = 50\<rparr>,
     \<lparr>name = ''Library'', latitude = -0.3925, longitude = 36.9635,
       type = ''Academic'', radius = 70\<rparr>,
     \<lparr>name = ''Administration Block'', latitude = -0.3920, longitude = 36.9638,
       type = ''Administrative'', radius = 60\<rparr>,
     \<lparr>name = ''Engineering Block'', latitude = -0.3928, longitude = 36.9632,
       type = ''Academic'', radius = 80\<rparr>,
     \<lparr>name = ''Student Center'', latitude = -0.3922, longitude = 36.9640,
       type = ''Services'', radius = 65\<rparr>]"

text \<open>The exceptions the program can raise, as values.\<close>

datatype pyerr =
    NameError string
  | IndexError
  | AttributeError string
  | ReError
  | ValueError

definition coords :: "location \<Rightarrow> real \<times> real" where
  "coords row = (latitude row, longitude row)"

text \<open>
  \<^verbatim>\<open>df.iloc[0]\<close>: the first row, \<^verbatim>\<open>IndexError\<close> on an empty frame.
\<close>

definition iloc0 :: "'a list \<Rightarrow> pyerr + 'a" where
  "iloc0 rows = (case rows of [] \<Rightarrow> Inl IndexError | r # _ \<Rightarrow> Inr r)"

section \<open>Filter by type\<close>

text \<open>
  \<^verbatim>\<open>locations['type'].unique()\<close>: the distinct values in order of first appearance.
\<close>

fun unique_from :: "'a list \<Rightarrow> 'a list \<Rightarrow> 'a list" where
  "unique_from seen [] = []"
| "unique_from seen (x # xs) =
     (if x \<in> set seen then unique_from seen xs else x # unique_from (x # seen) xs)"

definition unique :: "'a list \<Rightarrow> 'a list" where
  "unique xs = unique_from [] xs"

definition type_options :: "location list \<Rightarrow> string list" where
  "type_options df = ''All'' # unique (map type df)"

text \<open>
  The filter of line 163, \<^verbatim>\<open>locations[locations['type'] == selected_type]\<close>: the rows
  of the given type, in table order.
\<close>

definition byType :: "location list \<Rightarrow> string \<Rightarrow> location list" where
  "byType df selected_type = filter (\<lambda>row. type row = selected_type) df"

text \<open>
  Lines 162 to 165 of \<^verbatim>\<open>main\<close> choose between the filter and the whole table; the
  value \<^verbatim>\<open>"All"\<close> is the option the page puts before the types of the table.
  \<^verbatim>\<open>
  if selected_type != "All":
      filtered_locations = locations[locations['type'] == selected_type]
  else:
      filtered_locations = locations
  \<close>
\<close>

definition filtered_locations :: "location list \<Rightarrow> string \<Rightarrow> location list" where
  "filtered_locations df selected_type =
     (if selected_type \<noteq> ''All'' then byType df selected_type else df)"

section \<open>Search by name\<close>

text \<open>
  \<^verbatim>\<open>str.lower()\<close>. A string is its bytes in UTF-8. On a string of ASCII characters
  Python's lower-casing sends the 26 capital letters to their small letters and keeps
  every other character. A string with a byte outside ASCII holds characters of the rest
  of Unicode, whose lower-casing is Python's table and not part of this program: such a
  string is handed to the parameter \<open>lower_ext\<close>.
\<close>

definition is_ascii :: "char \<Rightarrow> bool" where
  "is_ascii c = (\<not> digit7 c)"

definition char_lower :: "char \<Rightarrow> char" where
  "char_lower c =
     (case map_of (zip ''ABCDEFGHIJKLMNOPQRSTUVWXYZ'' ''abcdefghijklmnopqrstuvwxyz'') c of
        Some d \<Rightarrow> d
      | None \<Rightarrow> c)"

definition str_lower :: "(string \<Rightarrow> string) \<Rightarrow> string \<Rightarrow> string" where
  "str_lower lower_ext s = (if list_all is_ascii s then map char_lower s else lower_ext s)"

text \<open>
  \<^verbatim>\<open>Series.str.contains(pat)\<close> is called with its defaults, \<^verbatim>\<open>case=True, regex=True\<close>:
  \<^verbatim>\<open>pat\<close> is compiled once as a regular expression of Python's \<^verbatim>\<open>re\<close> and each
  value \<^verbatim>\<open>s\<close> of the column is kept when \<^verbatim>\<open>re.search(pat, s)\<close> finds a match.

  The characters \<^verbatim>\<open>. ^ $ * + ? { } [ ] \ | ( )\<close> are special in a pattern; every other
  character matches itself. The model interprets the patterns made of ordinary
  characters and of the dot, which matches any character but a newline. A pattern with
  another special character is handed to \<open>re_ext\<close>, the rest of the regular
  expression library, which is not part of this program: it either raises
  (\<^verbatim>\<open>re.error\<close>) or returns the compiled search.
\<close>

definition re_dot :: char where
  "re_dot = CHR ''.''"

definition re_newline :: char where
  "re_newline = CHR 0x0A"

definition re_special :: "char list" where
  "re_special = ''.^$*+?{}[]|()'' @ [CHR 0x5C]"

definition re_ordinary :: "char \<Rightarrow> bool" where
  "re_ordinary c = (c \<notin> set re_special)"

definition re_modelled :: "string \<Rightarrow> bool" where
  "re_modelled pat = list_all (\<lambda>c. re_ordinary c \<or> c = re_dot) pat"

definition re_char_match :: "char \<Rightarrow> char \<Rightarrow> bool" where
  "re_char_match p c = (if p = re_dot then c \<noteq> re_newline else p = c)"

text \<open>The pattern matches a prefix of the subject.\<close>

fun re_match_here :: "string \<Rightarrow> string \<Rightarrow> bool" where
  "re_match_here [] s = True"
| "re_match_here (p # ps) [] = False"
| "re_match_here (p # ps) (c # cs) = (re_char_match p c \<and> re_match_here ps cs)"

text \<open>\<^verbatim>\<open>re.search\<close>: the pattern matches at some position of the subject.\<close>

fun re_search :: "string \<Rightarrow> string \<Rightarrow> bool" where
  "re_search pat [] = re_match_here pat []"
| "re_search pat (c # cs) = (re_match_here pat (c # cs) \<or> re_search pat cs)"

definition re_compile ::
  "(string \<Rightarrow> pyerr + (string \<Rightarrow> bool)) \<Rightarrow> string \<Rightarrow> pyerr + (string \<Rightarrow> bool)" where
  "re_compile re_ext pat = (if re_modelled pat then Inr (re_search pat) else re_ext pat)"

text \<open>
  Lines 177 to 179 of \<^verbatim>\<open>main\<close>:
  \<^verbatim>\<open>
  found_locations = locations[
      locations['name'].str.lower().str.contains(search_term.lower())
  ]
  \<close>
\<close>

definition found_locations ::
  "(string \<Rightarrow> string) \<Rightarrow> (string \<Rightarrow> pyerr + (string \<Rightarrow> bool)) \<Rightarrow> location list \<Rightarrow>
     string \<Rightarrow> pyerr + location list" where
  "found_locations lower_ext re_ext df search_term =
     (case re_compile re_ext (str_lower lower_ext search_term) of
        Inl e \<Rightarrow> Inl e
      | Inr contains \<Rightarrow> Inr (filter (\<lambda>row. contains (str_lower lower_ext (name row))) df))"



section \<open>The map\<close>

text \<open>
  A folium map is the centre, the zoom, the tile set and the elements added to it, in
  the order of the \<^verbatim>\<open>add_to\<close> calls. A popup is built from the name, the type and
  the coordinates of a row (the program prints the coordinates with four decimals);
  the model keeps these four values.
\<close>

datatype icon = DivIcon string

datatype element =
    Rectangle "(real \<times> real) \<times> (real \<times> real)" string bool string real int
  | Marker "real \<times> real" "string \<times> string \<times> real \<times> real" string "icon option"
  | Circle "real \<times> real" int string bool string real int
  | Draw bool string "(string \<times> bool) list"
  | LocateControl

record folium_map =
  map_location :: "real \<times> real"
  zoom_start :: int
  tiles :: string
  children :: "element list"

definition add_to :: "element \<Rightarrow> folium_map \<Rightarrow> folium_map" where
  "add_to e m = m\<lparr>children := children m @ [e]\<rparr>"

text \<open>
  The names a function body looks up in the module. \<^verbatim>\<open>prototype.py\<close> imports
  \<^verbatim>\<open>streamlit\<close>, \<^verbatim>\<open>folium\<close>, \<^verbatim>\<open>folium_static\<close>, \<^verbatim>\<open>pandas\<close>, \<^verbatim>\<open>geodesic\<close>, \<^verbatim>\<open>Draw\<close> and
  the submodule \<^verbatim>\<open>locate_control\<close>; \<^verbatim>\<open>create_map\<close> also uses the names \<^verbatim>\<open>DivIcon\<close>
  and \<^verbatim>\<open>Locate\<close>, which the module binds nowhere. A use of an unbound name raises
  \<^verbatim>\<open>NameError\<close>. The two bindings are a parameter, so that the same definition also
  says what \<^verbatim>\<open>create_map\<close> does once they are bound.
\<close>

record py_globals =
  g_DivIcon :: "(string \<Rightarrow> icon) option"
  g_Locate :: "element option"

definition module_globals :: py_globals where
  "module_globals = \<lparr>g_DivIcon = None, g_Locate = None\<rparr>"

definition folium_globals :: py_globals where
  "folium_globals = \<lparr>g_DivIcon = Some DivIcon, g_Locate = Some LocateControl\<rparr>"

text \<open>The arguments of \<^verbatim>\<open>create_map\<close>, and their defaults.\<close>

record render_request =
  center_lat :: real
  center_lon :: real
  zoom :: int
  highlight_name :: "string option"

definition default_request :: render_request where
  "default_request =
     \<lparr>center_lat = -0.3923, center_lon = 36.9634, zoom = 17, highlight_name = None\<rparr>"

text \<open>Python's truth value of an optional string: \<^verbatim>\<open>None\<close> and \<^verbatim>\<open>""\<close> are false.\<close>

definition truthy :: "string option \<Rightarrow> bool" where
  "truthy h = (case h of None \<Rightarrow> False | Some s \<Rightarrow> s \<noteq> [])"

definition overlay_bounds :: "(real \<times> real) \<times> (real \<times> real)" where
  "overlay_bounds = ((-0.3950, 36.9600), (-0.3900, 36.9700))"

definition create_dark_overlay :: "folium_map \<Rightarrow> folium_map" where
  "create_dark_overlay map_obj =
     add_to (Rectangle overlay_bounds ''#000000'' True ''#000000'' 0.5 0) map_obj"

text \<open>The style sheet of the glowing marker, with its line breaks written as blanks.\<close>

definition icon_html :: string where
  "icon_html = ''<div style=\"width: 20px; height: 20px; background-color: #FFD700; border-radius: 50%; box-shadow: 0 0 20px #FFD700; animation: pulse 2s infinite;\"></div><style>@keyframes pulse { 0% { box-shadow: 0 0 0 0 rgba(255, 215, 0, 0.7); } 70% { box-shadow: 0 0 0 20px rgba(255, 215, 0, 0); } 100% { box-shadow: 0 0 0 0 rgba(255, 215, 0, 0); } }</style>''"

definition popup :: "location \<Rightarrow> string \<times> string \<times> real \<times> real" where
  "popup row = (name row, type row, latitude row, longitude row)"

definition highlight_circle :: "location \<Rightarrow> element" where
  "highlight_circle row = Circle (coords row) (radius row) ''#FFD700'' True ''#FFD700'' 0.3 2"

text \<open>
  The loop of \<^verbatim>\<open>create_map\<close> over the rows (lines 55 to 114): a plain marker for a
  row that is not highlighted; for the highlighted row the circle, then the marker with
  the \<^verbatim>\<open>DivIcon\<close>.
\<close>

fun add_markers ::
  "py_globals \<Rightarrow> string option \<Rightarrow> location list \<Rightarrow> folium_map \<Rightarrow> pyerr + folium_map" where
  "add_markers g h [] m = Inr m"
| "add_markers g h (row # rows) m =
     (if truthy h \<and> Some (name row) = h then
        (case g_DivIcon g of
           None \<Rightarrow> Inl (NameError ''DivIcon'')
         | Some div_icon \<Rightarrow>
             add_markers g h rows
               (add_to (Marker (coords row) (popup row) (name row) (Some (div_icon icon_html)))
                  (add_to (highlight_circle row) m)))
      else add_markers g h rows (add_to (Marker (coords row) (popup row) (name row) None) m))"

text \<open>
  What the loop of \<^verbatim>\<open>create_map\<close> adds for one row when \<^verbatim>\<open>DivIcon\<close> is bound to
  folium's class.
\<close>

definition row_elements :: "string option \<Rightarrow> location \<Rightarrow> element list" where
  "row_elements h row =
     (if truthy h \<and> Some (name row) = h then
        [highlight_circle row,
         Marker (coords row) (popup row) (name row) (Some (DivIcon icon_html))]
      else [Marker (coords row) (popup row) (name row) None])"

definition draw_control :: element where
  "draw_control =
     Draw False ''topleft''
       [(''polyline'', True), (''marker'', True), (''circle'', True),
        (''rectangle'', False), (''polygon'', False), (''circlemarker'', False)]"

definition create_map ::
  "py_globals \<Rightarrow> location list \<Rightarrow> render_request \<Rightarrow> pyerr + folium_map" where
  "create_map g df req =
     (let m0 = \<lparr>map_location = (center_lat req, center_lon req), zoom_start = zoom req,
                tiles = ''OpenStreetMap'', children = []\<rparr>;
          m1 = (if truthy (highlight_name req) then create_dark_overlay m0 else m0)
      in case add_markers g (highlight_name req) df m1 of
           Inl e \<Rightarrow> Inl e
         | Inr m2 \<Rightarrow>
             (case g_Locate g of
                None \<Rightarrow> Inl (NameError ''Locate'')
              | Some locate \<Rightarrow> Inr (add_to locate (add_to draw_control m2))))"

section \<open>Choosing what to highlight\<close>

text \<open>
  \<^verbatim>\<open>st.session_state\<close> is a dictionary; the program uses the key
  \<^verbatim>\<open>highlighted_location\<close>, whose value is a name or \<^verbatim>\<open>None\<close>.
\<close>

type_synonym session_state = "string \<rightharpoonup> string option"

definition hl_key :: string where
  "hl_key = ''highlighted_location''"

definition init_session :: "session_state \<Rightarrow> session_state" where
  "init_session s = (if hl_key \<notin> dom s then s(hl_key \<mapsto> None) else s)"

definition get_highlighted :: "session_state \<Rightarrow> pyerr + string option" where
  "get_highlighted s = (case s hl_key of None \<Rightarrow> Inl (AttributeError hl_key) | Some v \<Rightarrow> Inr v)"

text \<open>
  Lines 172 to 200 of \<^verbatim>\<open>main\<close>, up to the calls of \<^verbatim>\<open>create_map\<close>: the result is
  \<^verbatim>\<open>highlight_name\<close> and the arguments \<^verbatim>\<open>create_map\<close> is called with, beside the
  session state as the branch leaves it.
\<close>

definition choose_request ::
  "(string \<Rightarrow> string) \<Rightarrow> (string \<Rightarrow> pyerr + (string \<Rightarrow> bool)) \<Rightarrow> location list \<Rightarrow>
     string \<Rightarrow> string option \<Rightarrow> session_state \<Rightarrow>
     (pyerr + string option \<times> render_request) \<times> session_state" where
  "choose_request lower_ext re_ext df search_term selected_location s =
     (if search_term \<noteq> [] then
        (case found_locations lower_ext re_ext df search_term of
           Inl e \<Rightarrow> (Inl e, s)
         | Inr [] \<Rightarrow> (Inr (None, default_request), s(hl_key \<mapsto> None))
         | Inr (first # _) \<Rightarrow>
             (let s' = s(hl_key \<mapsto> Some (name first)) in
              case get_highlighted s' of
                Inl e \<Rightarrow> (Inl e, s')
              | Inr h \<Rightarrow>
                  (Inr (Some (name first),
                        \<lparr>center_lat = latitude first, center_lon = longitude first,
                         zoom = 18, highlight_name = h\<rparr>), s')))
      else if truthy selected_location then
        (let s' = s(hl_key \<mapsto> selected_location) in
         case iloc0 (filter (\<lambda>row. Some (name row) = selected_location) df) of
           Inl e \<Rightarrow> (Inl e, s')
         | Inr loc \<Rightarrow>
             (case get_highlighted s' of
                Inl e \<Rightarrow> (Inl e, s')
              | Inr h \<Rightarrow>
                  (Inr (selected_location,
                        \<lparr>center_lat = latitude loc, center_lon = longitude loc,
                         zoom = 18, highlight_name = h\<rparr>), s')))
      else (Inr (None, default_request), s(hl_key \<mapsto> None)))"

section \<open>Distances to the other locations\<close>

text \<open>
  \<^verbatim>\<open>geodesic(a, b).meters\<close> is a function of the \<^verbatim>\<open>geopy\<close> library, and printing a
  float with \<^verbatim>\<open>f"{distance:.0f} meters"\<close> is Python's; both are parameters here,
  \<open>geodesic\<close> returning the metres or the exception it raises, \<open>fmt\<close> the text.
\<close>

record distance_row =
  location :: string
  distance :: string

text \<open>
  The loop of lines 222 to 230:
  \<^verbatim>\<open>
  distances = []
  for idx, row in locations.iterrows():
      if row['name'] != selected_location:
          target_coords = (row['latitude'], row['longitude'])
          distance = geodesic(selected_coords, target_coords).meters
          distances.append({'location': row['name'],
                            'distance': f"{distance:.0f} meters"})
  \<close>
\<close>

fun distances ::
  "(real \<times> real \<Rightarrow> real \<times> real \<Rightarrow> pyerr + real) \<Rightarrow> (real \<Rightarrow> string) \<Rightarrow> real \<times> real \<Rightarrow>
     string \<Rightarrow> location list \<Rightarrow> pyerr + distance_row list" where
  "distances geodesic fmt selected_coords selected_location [] = Inr []"
| "distances geodesic fmt selected_coords selected_location (row # rows) =
     (if name row \<noteq> selected_location then
        (case geodesic selected_coords (coords row) of
           Inl e \<Rightarrow> Inl e
         | Inr d \<Rightarrow>
             (case distances geodesic fmt selected_coords selected_location rows of
                Inl e \<Rightarrow> Inl e
              | Inr ds \<Rightarrow> Inr (\<lparr>location = name row, distance = fmt d\<rparr> # ds)))
      else distances geodesic fmt selected_coords selected_location rows)"

text \<open>
  The information panel, lines 212 to 233: nothing when no location is selected;
  otherwise the selected row (\<^verbatim>\<open>IndexError\<close> when no row has the name) and the table
  of distances from it.
\<close>

record info_panel =
  info_loc :: location
  distance_df :: "distance_row list"

definition show_info ::
  "(real \<times> real \<Rightarrow> real \<times> real \<Rightarrow> pyerr + real) \<Rightarrow> (real \<Rightarrow> string) \<Rightarrow> location list \<Rightarrow>
     string option \<Rightarrow> pyerr + info_panel option" where
  "show_info geodesic fmt df selected_location =
     (case selected_location of
        None \<Rightarrow> Inr None
      | Some sel \<Rightarrow>
          if sel = [] then Inr None
          else
            (case iloc0 (filter (\<lambda>row. name row = sel) df) of
               Inl e \<Rightarrow> Inl e
             | Inr loc \<Rightarrow>
                 (case distances geodesic fmt (coords loc) sel df of
                    Inl e \<Rightarrow> Inl e
                  | Inr ds \<Rightarrow> Inr (Some \<lparr>info_loc = loc, distance_df = ds\<rparr>))))"

section \<open>One run of the page\<close>

text \<open>
  What \<^verbatim>\<open>main\<close> reads from the widgets of the sidebar, and the state it runs in: the
  module's table and the session dictionary. A run initialises the session key (lines
  139 and 140), chooses the request and builds the map, then shows the information
  panel; an exception ends the run where it is raised.
\<close>

record inputs =
  search_term :: string
  selected_type :: string
  selected_location :: "string option"

record app_state =
  st_locations :: "location list"
  st_session :: session_state

record page =
  page_options :: "string list"
  page_map :: folium_map
  page_info :: "info_panel option"

definition main ::
  "py_globals \<Rightarrow> (string \<Rightarrow> string) \<Rightarrow> (string \<Rightarrow> pyerr + (string \<Rightarrow> bool)) \<Rightarrow>
     (real \<times> real \<Rightarrow> real \<times> real \<Rightarrow> pyerr + real) \<Rightarrow> (real \<Rightarrow> string) \<Rightarrow> inputs \<Rightarrow>
     app_state \<Rightarrow> (pyerr + page) \<times> app_state" where
  "main g lower_ext re_ext geodesic fmt inp st =
     (let df = st_locations st;
          options = map name (filtered_locations df (selected_type inp));
          (r, s) = choose_request lower_ext re_ext df (search_term inp) (selected_location inp)
                     (init_session (st_session st));
          st' = st\<lparr>st_session := s\<rparr>
      in case r of
           Inl e \<Rightarrow> (Inl e, st')
         | Inr (h, req) \<Rightarrow>
             (case create_map g df req of
                Inl e \<Rightarrow> (Inl e, st')
              | Inr m \<Rightarrow>
                  (case show_info geodesic fmt df (selected_location inp) of
                     Inl e \<Rightarrow> (Inl e, st')
                   | Inr info \<Rightarrow>
                       (Inr \<lparr>page_options = options, page_map = m, page_info = info\<rparr>, st'))))"

text \<open>Whether a coordinate pair is a latitude and a longitude in range.\<close>

definition in_range :: "real \<times> real \<Rightarrow> bool" where
  "in_range c = (-90 \<le> fst c \<and> fst c \<le> 90 \<and> -180 \<le> snd c \<and> snd c \<le> 180)"

text \<open>
  A stand-in for the distance library, to run the loop on examples: it raises when the
  latitude of a point is outside [-90, 90] and returns 0 as the distance otherwise. It
  stands for the library in which calls raise, not in the distances.
\<close>

definition checked_geodesic :: "real \<times> real \<Rightarrow> real \<times> real \<Rightarrow> pyerr + real" where
  "checked_geodesic a b =
     (if -90 \<le> fst a \<and> fst a \<le> 90 \<and> -90 \<le> fst b \<and> fst b \<le> 90 then Inr 0
      else Inl ValueError)"

section \<open>Properties\<close>

subsection \<open>Filter by type\<close>

lemma set_unique_from: "set (unique_from seen xs) = set xs - set seen"
  by (induction seen xs rule: unique_from.induct) auto

lemma set_unique: "set (unique xs) = set xs"
  by (simp add: unique_def set_unique_from)

lemma distinct_unique_from: "distinct (unique_from seen xs)"
  by (induction seen xs rule: unique_from.induct) (auto simp: set_unique_from)

lemma distinct_unique: "distinct (unique xs)"
  by (simp add: unique_def distinct_unique_from)

lemma mset_concat_filter:
  "distinct ts \<Longrightarrow>
   mset (concat (map (\<lambda>t. filter (\<lambda>row. f row = t) df) ts)) =
   mset (filter (\<lambda>row. f row \<in> set ts) df)"
proof (induction ts)
  case Nil
  then show ?case by simp
next
  case (Cons t ts)
  have "mset (filter (\<lambda>row. f row \<in> set (t # ts)) df) =
        mset (filter (\<lambda>row. f row = t) df) + mset (filter (\<lambda>row. f row \<in> set ts) df)"
    using Cons.prems by (induction df) auto
  with Cons show ?case by simp
qed

lemma mset_concat_byType:
  "mset (concat (map (byType df) (unique (map type df)))) = mset df"
proof -
  have "map (byType df) (unique (map type df)) =
        map (\<lambda>t. filter (\<lambda>row. type row = t) df) (unique (map type df))"
    by (simp add: byType_def)
  then have "mset (concat (map (byType df) (unique (map type df)))) =
        mset (concat (map (\<lambda>t. filter (\<lambda>row. type row = t) df) (unique (map type df))))"
    by (simp only:)
  also have "\<dots> = mset (filter (\<lambda>row. type row \<in> set (unique (map type df))) df)"
    by (rule mset_concat_filter [OF distinct_unique])
  also have "\<dots> = mset df"
    by (simp add: set_unique)
  finally show ?thesis .
qed

lemma filtered_locations_All: "filtered_locations df ''All'' = df"
  by (simp add: filtered_locations_def)

text \<open>
  C4. The results of the filter by type, taken over the type values of the table, are a
  partition of the table: their union is the table (as sets, and row for row as
  multisets over the distinct type values in order of first appearance), the results for
  two different types share no row, every result is a subsequence of the table, so in
  table order, and a type that no row has gives the empty result. The page runs this
  filter for every selected type other than the option \<^verbatim>\<open>"All"\<close>.
\<close>

theorem byType_partition:
  "(\<Union>t \<in> set (map type df). set (byType df t)) = set df
   \<and> mset (concat (map (byType df) (unique (map type df)))) = mset df
   \<and> (\<forall>t1 t2. t1 \<noteq> t2 \<longrightarrow> set (byType df t1) \<inter> set (byType df t2) = {})
   \<and> (\<forall>t. subseq (byType df t) df)
   \<and> (\<forall>t. t \<notin> set (map type df) \<longrightarrow> byType df t = [])
   \<and> (\<forall>t. t \<noteq> ''All'' \<longrightarrow> filtered_locations df t = byType df t)"
proof (intro conjI allI impI)
  show "(\<Union>t \<in> set (map type df). set (byType df t)) = set df"
    by (auto simp: byType_def)
  show "mset (concat (map (byType df) (unique (map type df)))) = mset df"
    by (rule mset_concat_byType)
next
  fix t1 t2 :: string
  assume "t1 \<noteq> t2"
  then show "set (byType df t1) \<inter> set (byType df t2) = {}"
    by (auto simp: byType_def)
next
  fix t show "subseq (byType df t) df"
    by (simp add: byType_def)
next
  fix t :: string
  assume "t \<notin> set (map type df)"
  then show "byType df t = []"
    by (auto simp: byType_def filter_empty_conv)
next
  fix t :: string
  assume "t \<noteq> ''All''"
  then show "filtered_locations df t = byType df t"
    by (simp add: filtered_locations_def)
qed

lemma types_locations:
  "map type locations = [''Entry'', ''Academic'', ''Administrative'', ''Academic'', ''Services'']"
  by (simp add: locations_def)

text \<open>
  The partition on the table of the program: the type Academic gives Library and
  Engineering Block, in this order; Academic and Entry share no row; no row has the type
  Sports.
\<close>

theorem byType_partition_witness:
  "mset (concat (map (byType locations) (unique (map type locations)))) = mset locations
   \<and> map name (byType locations ''Academic'') = [''Library'', ''Engineering Block'']
   \<and> set (byType locations ''Academic'') \<inter> set (byType locations ''Entry'') = {}
   \<and> byType locations ''Sports'' = []
   \<and> filtered_locations locations ''Academic'' = byType locations ''Academic''"
proof -
  have a: "map name (byType locations ''Academic'') = [''Library'', ''Engineering Block'']"
    by (simp add: byType_def locations_def)
  have s: "''Sports'' \<notin> set (map type locations)"
    by (simp add: types_locations)
  have n: "''Academic'' \<noteq> ''Entry''" "''Academic'' \<noteq> ''All''"
    by simp_all
  note p = byType_partition [of locations]
  from p have m: "mset (concat (map (byType locations) (unique (map type locations)))) =
      mset locations"
    by (elim conjE)
  from p have dj: "\<forall>t1 t2. t1 \<noteq> t2 \<longrightarrow>
      set (byType locations t1) \<inter> set (byType locations t2) = {}"
    by (elim conjE)
  have d: "set (byType locations ''Academic'') \<inter> set (byType locations ''Entry'') = {}"
    by (rule dj [rule_format, OF n(1)])
  from p have em: "\<forall>t. t \<notin> set (map type locations) \<longrightarrow> byType locations t = []"
    by (elim conjE)
  have e: "byType locations ''Sports'' = []"
    by (rule em [rule_format, OF s])
  from p have fl: "\<forall>t. t \<noteq> ''All'' \<longrightarrow> filtered_locations locations t = byType locations t"
    by (elim conjE)
  have f: "filtered_locations locations ''Academic'' = byType locations ''Academic''"
    by (rule fl [rule_format, OF n(2)])
  from m a d e f show ?thesis
    by (intro conjI)
qed

subsection \<open>Search by name\<close>

lemma re_ordinary_not_dot: "re_ordinary p \<Longrightarrow> p \<noteq> re_dot"
  by (auto simp: re_ordinary_def re_special_def re_dot_def)

lemma re_match_here_prefix:
  "list_all re_ordinary pat \<Longrightarrow> re_match_here pat s = prefix pat s"
  by (induction pat s rule: re_match_here.induct)
     (auto simp: re_char_match_def dest: re_ordinary_not_dot)

lemma re_search_sublist:
  "list_all re_ordinary pat \<Longrightarrow> re_search pat s = sublist pat s"
  by (induction s) (simp_all add: re_match_here_prefix sublist_Cons_right)

lemma re_modelled_ordinary: "list_all re_ordinary pat \<Longrightarrow> re_modelled pat"
  by (simp add: re_modelled_def list_all_iff)

text \<open>
  For a term whose lower-cased form has no special character the search is the
  substring match on the lower-cased names, in table order.
\<close>

lemma found_locations_ordinary:
  assumes "list_all re_ordinary (str_lower lower_ext term_in)"
  shows "found_locations lower_ext re_ext df term_in =
         Inr (filter (\<lambda>row. sublist (str_lower lower_ext term_in)
                                (str_lower lower_ext (name row))) df)"
  using assms
  by (simp add: found_locations_def re_compile_def re_modelled_ordinary re_search_sublist)

lemma found_locations_own_name:
  assumes "L \<in> set df" and "list_all re_ordinary (str_lower lower_ext (name L))"
    and "str_lower lower_ext t = str_lower lower_ext (name L)"
  shows "\<exists>found. found_locations lower_ext re_ext df t = Inr found \<and> L \<in> set found"
  using assms by (simp add: found_locations_ordinary)

lemma locations_names_ordinary:
  "list_all (\<lambda>row. list_all re_ordinary (str_lower lower_ext (name row))) locations"
  by (simp add: locations_def str_lower_def is_ascii_def char_lower_def re_ordinary_def
      re_special_def)

text \<open>Every row of the table of the program is found by its own name in any case.\<close>

lemma found_locations_seed:
  assumes "L \<in> set locations" and "str_lower lower_ext t = str_lower lower_ext (name L)"
  shows "\<exists>found. found_locations lower_ext re_ext locations t = Inr found \<and> L \<in> set found"
  using assms locations_names_ordinary [of lower_ext]
    found_locations_own_name [of L locations lower_ext t re_ext]
  by (simp add: list_all_iff)

text \<open>
  C5 at a failing input. The term \<^verbatim>\<open>M.IN\<close> is lowered to \<^verbatim>\<open>m.in\<close> and read as a
  regular expression, whose dot stands for any character: the search returns Main Gate,
  although \<^verbatim>\<open>m.in\<close> is not a substring of \<^verbatim>\<open>main gate\<close>.
\<close>

theorem search_dot_is_wildcard:
  "map_sum id (map name) (found_locations lower_ext re_ext locations ''M.IN'') =
     Inr [''Main Gate'']
   \<and> \<not> sublist (str_lower lower_ext ''M.IN'') (str_lower lower_ext ''Main Gate'')"
  by (simp add: found_locations_def re_compile_def re_modelled_def re_ordinary_def
      re_special_def re_dot_def re_newline_def re_char_match_def str_lower_def is_ascii_def
      char_lower_def locations_def sublist_code)




lemma filter_find_Some: "find P xs = Some x \<Longrightarrow> \<exists>rest. filter P xs = x # rest"
  by (induction xs) (auto split: if_splits)

lemma filter_find_None: "find P xs = None \<Longrightarrow> filter P xs = []"
  by (induction xs) (auto split: if_splits)

text \<open>
  The choice of the page for a non-empty term whose pattern compiles: the first row in
  table order that the compiled pattern matches gives \<^verbatim>\<open>highlight_name\<close>, the centre
  of the map (at zoom 18) and the session value, whatever the dropdown selection is;
  when it matches no row nothing is highlighted and the map is the default one.
\<close>

lemma choose_request_compiled:
  assumes "term_in \<noteq> []"
    and "re_compile re_ext (str_lower lower_ext term_in) = Inr contains"
  shows "(find (\<lambda>row. contains (str_lower lower_ext (name row))) df = Some first \<longrightarrow>
            choose_request lower_ext re_ext df term_in sel s =
              (Inr (Some (name first),
                    \<lparr>center_lat = latitude first, center_lon = longitude first, zoom = 18,
                     highlight_name = Some (name first)\<rparr>),
               s(hl_key \<mapsto> Some (name first))))
       \<and> (find (\<lambda>row. contains (str_lower lower_ext (name row))) df = None \<longrightarrow>
            choose_request lower_ext re_ext df term_in sel s =
              (Inr (None, default_request), s(hl_key \<mapsto> None)))"
proof (intro conjI impI)
  assume "find (\<lambda>row. contains (str_lower lower_ext (name row))) df = Some first"
  then have "\<exists>rest. filter (\<lambda>row. contains (str_lower lower_ext (name row))) df = first # rest"
    by (rule filter_find_Some)
  then obtain rest where
    "filter (\<lambda>row. contains (str_lower lower_ext (name row))) df = first # rest" ..
  with assms show "choose_request lower_ext re_ext df term_in sel s =
      (Inr (Some (name first),
            \<lparr>center_lat = latitude first, center_lon = longitude first, zoom = 18,
             highlight_name = Some (name first)\<rparr>),
       s(hl_key \<mapsto> Some (name first)))"
    by (simp add: choose_request_def found_locations_def get_highlighted_def)
next
  assume "find (\<lambda>row. contains (str_lower lower_ext (name row))) df = None"
  then have "filter (\<lambda>row. contains (str_lower lower_ext (name row))) df = []"
    by (rule filter_find_None)
  with assms show "choose_request lower_ext re_ext df term_in sel s =
      (Inr (None, default_request), s(hl_key \<mapsto> None))"
    by (simp add: choose_request_def found_locations_def)
qed

text \<open>
  For a non-empty term without special characters the page does what a substring search
  would: the first row in table order whose lower-cased name contains the lower-cased
  term is highlighted and centred, before any dropdown selection; when no name contains
  the term nothing is highlighted, whatever is selected.
\<close>

lemma choose_request_ordinary:
  assumes "term_in \<noteq> []" and "list_all re_ordinary (str_lower lower_ext term_in)"
  shows "(find (\<lambda>row. sublist (str_lower lower_ext term_in) (str_lower lower_ext (name row))) df
            = Some first \<longrightarrow>
            choose_request lower_ext re_ext df term_in sel s =
              (Inr (Some (name first),
                    \<lparr>center_lat = latitude first, center_lon = longitude first, zoom = 18,
                     highlight_name = Some (name first)\<rparr>),
               s(hl_key \<mapsto> Some (name first))))
       \<and> (find (\<lambda>row. sublist (str_lower lower_ext term_in) (str_lower lower_ext (name row))) df
            = None \<longrightarrow>
            choose_request lower_ext re_ext df term_in sel s =
              (Inr (None, default_request), s(hl_key \<mapsto> None)))"
proof -
  have c: "re_compile re_ext (str_lower lower_ext term_in) =
      Inr (re_search (str_lower lower_ext term_in))"
    using assms(2) by (simp add: re_compile_def re_modelled_ordinary)
  have s: "re_search (str_lower lower_ext term_in) = sublist (str_lower lower_ext term_in)"
    using assms(2) by (auto simp: re_search_sublist)
  from choose_request_compiled [OF assms(1) c, of df first sel s] show ?thesis
    unfolding s .
qed


subsection \<open>Distances\<close>

text \<open>
  The loop fails with the exception the distance library raises at the first row, in
  table order, that has another name than the selected one and on which the library
  fails.
\<close>

lemma distances_Inl_iff:
  "distances geodesic fmt c sel df = Inl e \<longleftrightarrow>
     (\<exists>pre row post. df = pre @ row # post \<and> name row \<noteq> sel \<and>
        geodesic c (latitude row, longitude row) = Inl e \<and>
        (\<forall>r\<in>set pre. name r \<noteq> sel \<longrightarrow> (\<exists>d. geodesic c (latitude r, longitude r) = Inr d)))"
proof (induction df)
  case Nil
  show ?case by simp
next
  case (Cons r rs)
  let ?ok = "\<lambda>r. name r \<noteq> sel \<longrightarrow> (\<exists>d. geodesic c (latitude r, longitude r) = Inr d)"
  let ?R = "\<lambda>df. \<exists>pre row post. df = pre @ row # post \<and> name row \<noteq> sel \<and>
        geodesic c (latitude row, longitude row) = Inl e \<and> (\<forall>r\<in>set pre. ?ok r)"
  have split: "?R (r # rs) \<longleftrightarrow>
      (name r \<noteq> sel \<and> geodesic c (latitude r, longitude r) = Inl e) \<or> (?ok r \<and> ?R rs)"
  proof
    assume "?R (r # rs)"
    then obtain pre row post where p: "r # rs = pre @ row # post" "name row \<noteq> sel"
      "geodesic c (latitude row, longitude row) = Inl e" "\<forall>r\<in>set pre. ?ok r"
      by blast
    show "(name r \<noteq> sel \<and> geodesic c (latitude r, longitude r) = Inl e) \<or> (?ok r \<and> ?R rs)"
    proof (cases pre)
      case Nil
      with p show ?thesis by simp
    next
      case (Cons a pre')
      with p have "a = r" "rs = pre' @ row # post" "?ok r" "\<forall>r\<in>set pre'. ?ok r"
        by simp_all
      with p(2,3) show ?thesis by blast
    qed
  next
    assume "(name r \<noteq> sel \<and> geodesic c (latitude r, longitude r) = Inl e) \<or> (?ok r \<and> ?R rs)"
    then show "?R (r # rs)"
    proof
      assume "name r \<noteq> sel \<and> geodesic c (latitude r, longitude r) = Inl e"
      then have "r # rs = [] @ r # rs \<and> name r \<noteq> sel \<and>
          geodesic c (latitude r, longitude r) = Inl e \<and> (\<forall>r\<in>set []. ?ok r)"
        by simp
      then show ?thesis by blast
    next
      assume a: "?ok r \<and> ?R rs"
      then obtain pre row post where p: "rs = pre @ row # post" "name row \<noteq> sel"
        "geodesic c (latitude row, longitude row) = Inl e" "\<forall>r\<in>set pre. ?ok r"
        by blast
      with a have "r # rs = (r # pre) @ row # post \<and> name row \<noteq> sel \<and>
          geodesic c (latitude row, longitude row) = Inl e \<and> (\<forall>x\<in>set (r # pre). ?ok x)"
        by simp
      then show ?thesis by blast
    qed
  qed
  have step: "distances geodesic fmt c sel (r # rs) = Inl e \<longleftrightarrow>
      (name r \<noteq> sel \<and> geodesic c (latitude r, longitude r) = Inl e) \<or>
      (?ok r \<and> distances geodesic fmt c sel rs = Inl e)"
    by (auto simp: coords_def split: sum.splits)
  show ?case
    unfolding step split Cons.IH ..
qed

text \<open>
  When the loop returns, its table has one entry for each row with another name than the
  selected one, in table order: the name of the row and the text of the distance the
  library returns from the selected coordinates to the latitude and longitude of the row.
\<close>

lemma distances_Inr_iff:
  "distances geodesic fmt c sel df = Inr ds \<longleftrightarrow>
     list_all2 (\<lambda>entry row. \<exists>d. geodesic c (latitude row, longitude row) = Inr d \<and>
                  entry = \<lparr>location = name row, distance = fmt d\<rparr>)
       ds (filter (\<lambda>row. name row \<noteq> sel) df)"
proof (induction df arbitrary: ds)
  case Nil
  show ?case by auto
next
  case (Cons r rs)
  show ?case
  proof (cases "name r = sel")
    case True
    with Cons show ?thesis by simp
  next
    case False
    show ?thesis
    proof (cases "geodesic c (latitude r, longitude r)")
      case (Inl e)
      with False show ?thesis
        by (auto simp: coords_def list_all2_Cons2)
    next
      case (Inr d)
      let ?P = "\<lambda>entry row. \<exists>d. geodesic c (latitude row, longitude row) = Inr d \<and>
                  entry = \<lparr>location = name row, distance = fmt d\<rparr>"
      have step: "distances geodesic fmt c sel (r # rs) = Inr ds \<longleftrightarrow>
          (\<exists>ds'. ds = \<lparr>location = name r, distance = fmt d\<rparr> # ds' \<and>
             distances geodesic fmt c sel rs = Inr ds')"
        using False Inr by (auto simp: coords_def split: sum.splits)
      have rhs: "list_all2 ?P ds (filter (\<lambda>row. name row \<noteq> sel) (r # rs)) \<longleftrightarrow>
          (\<exists>ds'. ds = \<lparr>location = name r, distance = fmt d\<rparr> # ds' \<and>
             list_all2 ?P ds' (filter (\<lambda>row. name row \<noteq> sel) rs))"
        using False Inr by (auto simp: list_all2_Cons2)
      show ?thesis
        unfolding step rhs Cons.IH ..
    qed
  qed
qed

lemma filter_own_name:
  "distinct (map name df) \<Longrightarrow> origin \<in> set df \<Longrightarrow>
   filter (\<lambda>row. name row = name origin) df = [origin]"
proof (induction df)
  case Nil
  then show ?case by simp
next
  case (Cons row rows)
  show ?case
  proof (cases "row = origin")
    case True
    with Cons.prems have out: "name origin \<notin> set (map name rows)" by simp
    have "\<forall>r\<in>set rows. name r \<noteq> name origin"
    proof
      fix r assume "r \<in> set rows"
      then have "name r \<in> set (map name rows)" by simp
      with out show "name r \<noteq> name origin" by metis
    qed
    then have "filter (\<lambda>row. name row = name origin) rows = []"
      by (simp add: filter_empty_conv)
    with True show ?thesis by simp
  next
    case False
    with Cons.prems have "origin \<in> set rows" "name row \<noteq> name origin" by auto
    with Cons show ?thesis by simp
  qed
qed

lemma filter_other_names:
  assumes "distinct (map name df)" and "origin \<in> set df"
  shows "filter (\<lambda>row. name row \<noteq> name origin) df = filter (\<lambda>row. row \<noteq> origin) df"
    and "length (filter (\<lambda>row. name row \<noteq> name origin) df) = length df - 1"
proof -
  have "name row = name origin \<longleftrightarrow> row = origin" if "row \<in> set df" for row
    using assms that by (auto simp: distinct_map inj_on_def)
  then show "filter (\<lambda>row. name row \<noteq> name origin) df = filter (\<lambda>row. row \<noteq> origin) df"
    by (auto intro: filter_cong)
  have "length (filter (\<lambda>row. name row = name origin) df)
      + length (filter (\<lambda>row. \<not> name row = name origin) df) = length df"
    by (rule sum_length_filter_compl)
  then show "length (filter (\<lambda>row. name row \<noteq> name origin) df) = length df - 1"
    by (simp add: filter_own_name [OF assms])
qed

text \<open>
  The shape of the table of distances. The table of locations has distinct names and
  \<open>origin\<close> is one of its rows. When the loop returns for \<open>origin\<close>, it returns one
  entry for each other row, in table order: \<open>length df - 1\<close> entries, none of them for
  \<open>origin\<close>, each with the name of its row and the text of what the library returns
  for the coordinates of \<open>origin\<close> and of the row. What the library computes, and that
  it is not negative, is the library's.
\<close>

lemma distances_entries:
  assumes "distinct (map name df)" and "origin \<in> set df"
    and "distances geodesic fmt (latitude origin, longitude origin) (name origin) df = Inr ds"
  shows "length ds = length df - 1"
    and "map location ds = map name (filter (\<lambda>row. row \<noteq> origin) df)"
    and "name origin \<notin> set (map location ds)"
    and "list_all2 (\<lambda>entry row. \<exists>d.
            geodesic (latitude origin, longitude origin) (latitude row, longitude row) = Inr d \<and>
            entry = \<lparr>location = name row, distance = fmt d\<rparr>)
          ds (filter (\<lambda>row. row \<noteq> origin) df)"
proof -
  let ?others = "filter (\<lambda>row. row \<noteq> origin) df"
  let ?R = "\<lambda>entry row. \<exists>d.
            geodesic (latitude origin, longitude origin) (latitude row, longitude row) = Inr d \<and>
            entry = \<lparr>location = name row, distance = fmt d\<rparr>"
  have others: "filter (\<lambda>row. name row \<noteq> name origin) df = ?others"
    and len: "length (filter (\<lambda>row. name row \<noteq> name origin) df) = length df - 1"
    using filter_other_names [OF assms(1,2)] by simp_all
  from assms(3) others show rel: "list_all2 ?R ds ?others"
    by (simp add: distances_Inr_iff)
  from rel have "length ds = length ?others"
    by (rule list_all2_lengthD)
  with len others show "length ds = length df - 1"
    by simp
  from rel have "list_all2 (\<lambda>entry row. location entry = name row) ds ?others"
    by (rule list_all2_mono) auto
  then show names: "map location ds = map name ?others"
    by (simp add: list_all2_conv_all_nth list_eq_iff_nth_eq)
  have "name origin \<notin> set (map name (filter (\<lambda>row. name row \<noteq> name origin) df))"
    by auto
  with others names show "name origin \<notin> set (map location ds)"
    by simp
qed

text \<open>
  C2, as the program has it. The loop of lines 222 to 230 checks no coordinate. It fails
  exactly when the distance library fails on the origin and a row with another name,
  and then with the exception the library raised at the first such row in table order,
  the library having returned for the rows before it. It returns exactly when the
  library returns for every such row, and then one entry per row with the text of the
  library's distance. So when the library returns a distance for every two points in
  range, the origin is in range and every row of the table is, the loop returns.
\<close>

theorem distances_fail_only_in_geodesic:
  "(distances geodesic fmt c sel df = Inl e \<longleftrightarrow>
      (\<exists>pre row post. df = pre @ row # post \<and> name row \<noteq> sel \<and>
         geodesic c (latitude row, longitude row) = Inl e \<and>
         (\<forall>r\<in>set pre. name r \<noteq> sel \<longrightarrow>
            (\<exists>d. geodesic c (latitude r, longitude r) = Inr d))))
   \<and> (distances geodesic fmt c sel df = Inr ds \<longleftrightarrow>
        list_all2 (\<lambda>entry row. \<exists>d. geodesic c (latitude row, longitude row) = Inr d \<and>
                     entry = \<lparr>location = name row, distance = fmt d\<rparr>)
          ds (filter (\<lambda>row. name row \<noteq> sel) df))
   \<and> ((\<forall>a b. in_range a \<and> in_range b \<longrightarrow> (\<exists>d. geodesic a b = Inr d)) \<and> in_range c \<and>
        (\<forall>row\<in>set df. in_range (latitude row, longitude row)) \<longrightarrow>
        (\<exists>ds. distances geodesic fmt c sel df = Inr ds))"
proof (intro conjI impI)
  show "distances geodesic fmt c sel df = Inl e \<longleftrightarrow>
      (\<exists>pre row post. df = pre @ row # post \<and> name row \<noteq> sel \<and>
         geodesic c (latitude row, longitude row) = Inl e \<and>
         (\<forall>r\<in>set pre. name r \<noteq> sel \<longrightarrow>
            (\<exists>d. geodesic c (latitude r, longitude r) = Inr d)))"
    by (rule distances_Inl_iff)
  show "distances geodesic fmt c sel df = Inr ds \<longleftrightarrow>
        list_all2 (\<lambda>entry row. \<exists>d. geodesic c (latitude row, longitude row) = Inr d \<and>
                     entry = \<lparr>location = name row, distance = fmt d\<rparr>)
          ds (filter (\<lambda>row. name row \<noteq> sel) df)"
    by (rule distances_Inr_iff)
next
  assume ok: "(\<forall>a b. in_range a \<and> in_range b \<longrightarrow> (\<exists>d. geodesic a b = Inr d)) \<and> in_range c \<and>
        (\<forall>row\<in>set df. in_range (latitude row, longitude row))"
  show "\<exists>ds. distances geodesic fmt c sel df = Inr ds"
  proof (cases "distances geodesic fmt c sel df")
    case (Inl e')
    then obtain pre row post where "df = pre @ row # post"
      and bad: "geodesic c (latitude row, longitude row) = Inl e'"
      unfolding distances_Inl_iff by blast
    then have "row \<in> set df" by simp
    note bad
    moreover from ok \<open>row \<in> set df\<close>
    obtain d where "geodesic c (latitude row, longitude row) = Inr d"
      by blast
    ultimately show ?thesis by simp
  next
    case (Inr ds')
    then show ?thesis by blast
  qed
qed

lemma in_range_locations: "\<forall>row\<in>set locations. in_range (latitude row, longitude row)"
  by (simp add: locations_def in_range_def)

text \<open>
  With a library that checks the latitudes: the distances from Library on the table of
  the program are returned, four entries; with a sixth row at latitude 100 the loop fails
  with the library's \<^verbatim>\<open>ValueError\<close>.
\<close>

theorem distances_fail_only_in_geodesic_witness:
  "distances checked_geodesic (\<lambda>d. ''0 meters'') (-0.3925, 36.9635) ''Library'' locations =
     Inr [\<lparr>location = ''Main Gate'', distance = ''0 meters''\<rparr>,
          \<lparr>location = ''Administration Block'', distance = ''0 meters''\<rparr>,
          \<lparr>location = ''Engineering Block'', distance = ''0 meters''\<rparr>,
          \<lparr>location = ''Student Center'', distance = ''0 meters''\<rparr>]
   \<and> distances checked_geodesic (\<lambda>d. ''0 meters'') (-0.3925, 36.9635) ''Library''
       (locations @ [\<lparr>name = ''North'', latitude = 100, longitude = 0, type = ''Entry'',
                       radius = 50\<rparr>]) = Inl ValueError"
proof -
  let ?north = "\<lparr>name = ''North'', latitude = 100, longitude = 0, type = ''Entry'',
                       radius = 50\<rparr>"
  let ?ds = "[\<lparr>location = ''Main Gate'', distance = ''0 meters''\<rparr>,
          \<lparr>location = ''Administration Block'', distance = ''0 meters''\<rparr>,
          \<lparr>location = ''Engineering Block'', distance = ''0 meters''\<rparr>,
          \<lparr>location = ''Student Center'', distance = ''0 meters''\<rparr>]"
  have ok: "list_all2 (\<lambda>entry row. \<exists>d.
        checked_geodesic (-0.3925, 36.9635) (latitude row, longitude row) = Inr d \<and>
        entry = \<lparr>location = name row, distance = ''0 meters''\<rparr>)
      ?ds (filter (\<lambda>row. name row \<noteq> ''Library'') locations)"
    by (simp add: locations_def checked_geodesic_def)
  have bad: "\<exists>pre row post. locations @ [?north] = pre @ row # post \<and> name row \<noteq> ''Library'' \<and>
      checked_geodesic (-0.3925, 36.9635) (latitude row, longitude row) = Inl ValueError \<and>
      (\<forall>r\<in>set pre. name r \<noteq> ''Library'' \<longrightarrow>
         (\<exists>d. checked_geodesic (-0.3925, 36.9635) (latitude r, longitude r) = Inr d))"
  proof (intro exI conjI)
    show "locations @ [?north] = locations @ ?north # []" by simp
    show "name ?north \<noteq> ''Library''" by simp
    show "checked_geodesic (-0.3925, 36.9635) (latitude ?north, longitude ?north) =
        Inl ValueError"
      by (simp add: checked_geodesic_def)
    show "\<forall>r\<in>set locations. name r \<noteq> ''Library'' \<longrightarrow>
         (\<exists>d. checked_geodesic (-0.3925, 36.9635) (latitude r, longitude r) = Inr d)"
      by (simp add: locations_def checked_geodesic_def)
  qed
  note t1 = distances_fail_only_in_geodesic [of checked_geodesic "\<lambda>d. ''0 meters''"
      "(-0.3925, 36.9635)" "''Library''" locations ValueError ?ds]
  note t2 = distances_fail_only_in_geodesic [of checked_geodesic "\<lambda>d. ''0 meters''"
      "(-0.3925, 36.9635)" "''Library''" "locations @ [?north]" ValueError ?ds]
  from t1 ok have "distances checked_geodesic (\<lambda>d. ''0 meters'') (-0.3925, 36.9635)
      ''Library'' locations = Inr ?ds"
    by (elim conjE) (rule iffD2)
  moreover from t2 bad have "distances checked_geodesic (\<lambda>d. ''0 meters'')
      (-0.3925, 36.9635) ''Library'' (locations @ [?north]) = Inl ValueError"
    by (elim conjE) (rule iffD2)
  ultimately show ?thesis by (rule conjI)
qed

text \<open>
  C2 as stated fails, even with a library that checks the latitudes. An origin at latitude
  100 that is the only row of its table gets the empty table of distances, not an error:
  the library is never called. And the origin Library, in range, fails when another row
  of the table is out of range.
\<close>

theorem distances_range_counterexample:
  "\<not> in_range (100, 0)
   \<and> show_info checked_geodesic (\<lambda>d. ''0 meters'')
       [\<lparr>name = ''North'', latitude = 100, longitude = 0, type = ''Entry'', radius = 50\<rparr>]
       (Some ''North'')
     = Inr (Some \<lparr>info_loc = \<lparr>name = ''North'', latitude = 100, longitude = 0,
                               type = ''Entry'', radius = 50\<rparr>,
                  distance_df = []\<rparr>)
   \<and> in_range (-0.3925, 36.9635)
   \<and> show_info checked_geodesic (\<lambda>d. ''0 meters'')
       [\<lparr>name = ''Library'', latitude = -0.3925, longitude = 36.9635, type = ''Academic'',
          radius = 70\<rparr>,
        \<lparr>name = ''North'', latitude = 100, longitude = 0, type = ''Entry'', radius = 50\<rparr>]
       (Some ''Library'')
     = Inl ValueError"
  by (simp add: show_info_def iloc0_def checked_geodesic_def in_range_def coords_def)

text \<open>
  The table of two rows, Main Gate and Library: the distances from Main Gate are one
  entry, for Library, with the text of what the distance library returns for the two
  pairs of coordinates.
\<close>

lemma distances_two_locations:
  "distances geodesic fmt (-0.3918, 36.9630) ''Main Gate''
     [\<lparr>name = ''Main Gate'', latitude = -0.3918, longitude = 36.9630, type = ''Entry'',
        radius = 50\<rparr>,
      \<lparr>name = ''Library'', latitude = -0.3925, longitude = 36.9635, type = ''Academic'',
        radius = 70\<rparr>] =
   (case geodesic (-0.3918, 36.9630) (-0.3925, 36.9635) of
      Inl e \<Rightarrow> Inl e
    | Inr d \<Rightarrow> Inr [\<lparr>location = ''Library'', distance = fmt d\<rparr>])"
  by (simp add: coords_def split: sum.split)

subsection \<open>The map\<close>

text \<open>
  In the module as it is written, \<^verbatim>\<open>create_map\<close> never returns a map: it stops at the
  first use of \<^verbatim>\<open>DivIcon\<close> or, when no row is highlighted, at \<^verbatim>\<open>Locate\<close>.
\<close>

lemma add_markers_unbound:
  "add_markers module_globals h df m = Inl e \<Longrightarrow> e = NameError ''DivIcon''"
  by (induction df arbitrary: m) (auto simp: module_globals_def split: if_splits)

lemma create_map_unbound: "\<exists>n. create_map module_globals df req = Inl (NameError n)"
proof (cases "add_markers module_globals (highlight_name req) df
    (if truthy (highlight_name req)
     then create_dark_overlay \<lparr>map_location = (center_lat req, center_lon req),
            zoom_start = zoom req, tiles = ''OpenStreetMap'', children = []\<rparr>
     else \<lparr>map_location = (center_lat req, center_lon req),
            zoom_start = zoom req, tiles = ''OpenStreetMap'', children = []\<rparr>)")
  case (Inl e)
  then have "e = NameError ''DivIcon''" by (rule add_markers_unbound)
  with Inl show ?thesis by (simp add: create_map_def Let_def)
next
  case (Inr m)
  then show ?thesis by (simp add: create_map_def Let_def module_globals_def)
qed

text \<open>
  C3 at two failing inputs. \<^verbatim>\<open>create_map\<close> called with the highlighted name Library
  raises \<^verbatim>\<open>NameError\<close> at \<^verbatim>\<open>DivIcon\<close>, before the glowing marker is built; called with
  no highlighted name it raises \<^verbatim>\<open>NameError\<close> at \<^verbatim>\<open>Locate\<close>. Neither call returns a
  map, highlighted or plain.
\<close>

theorem create_map_raises_NameError:
  "create_map module_globals locations
     \<lparr>center_lat = -0.3925, center_lon = 36.9635, zoom = 18, highlight_name = Some ''Library''\<rparr>
     = Inl (NameError ''DivIcon'')
   \<and> create_map module_globals locations default_request = Inl (NameError ''Locate'')"
  by (simp add: create_map_def module_globals_def default_request_def truthy_def locations_def)

text \<open>
  With \<^verbatim>\<open>DivIcon\<close> and \<^verbatim>\<open>Locate\<close> bound to folium's classes the map is the one the
  comments of \<^verbatim>\<open>create_map\<close> describe: the dark rectangle first when a name is
  highlighted, then for each row its marker, the highlighted row with its circle and
  the glowing marker instead, then the drawing and the locate controls.
\<close>

lemma g_Locate_folium: "g_Locate folium_globals = Some LocateControl"
  by (simp add: folium_globals_def)

lemma add_markers_bound:
  "add_markers folium_globals h df m =
     Inr (m\<lparr>children := children m @ concat (map (row_elements h) df)\<rparr>)"
  by (induction df arbitrary: m) (simp_all add: folium_globals_def row_elements_def add_to_def)

lemma create_map_bound:
  "create_map folium_globals df req =
     Inr \<lparr>map_location = (center_lat req, center_lon req), zoom_start = zoom req,
          tiles = ''OpenStreetMap'',
          children =
            (if truthy (highlight_name req)
             then [Rectangle overlay_bounds ''#000000'' True ''#000000'' 0.5 0] else [])
            @ concat (map (row_elements (highlight_name req)) df)
            @ [draw_control, LocateControl]\<rparr>"
  by (simp add: create_map_def add_markers_bound create_dark_overlay_def add_to_def
      g_Locate_folium)

subsection \<open>The session value\<close>

text \<open>
  Every branch of the choice writes \<^verbatim>\<open>highlighted_location\<close> before it reads it: what
  is chosen, and what a run of the page returns, does not depend on the value the
  session held before.
\<close>

lemma fst_choose_request:
  "fst (choose_request lower_ext re_ext df t sel s) =
   fst (choose_request lower_ext re_ext df t sel s')"
  by (simp add: choose_request_def get_highlighted_def Let_def split: sum.split list.split)

lemma fst_main:
  "fst (main g lower_ext re_ext geodesic fmt inp st) =
     (case fst (choose_request lower_ext re_ext (st_locations st) (search_term inp)
                  (selected_location inp) (init_session (st_session st))) of
        Inl e \<Rightarrow> Inl e
      | Inr (h, req) \<Rightarrow>
          (case create_map g (st_locations st) req of
             Inl e \<Rightarrow> Inl e
           | Inr m \<Rightarrow>
               (case show_info geodesic fmt (st_locations st) (selected_location inp) of
                  Inl e \<Rightarrow> Inl e
                | Inr info \<Rightarrow>
                    Inr \<lparr>page_options =
                           map name (filtered_locations (st_locations st) (selected_type inp)),
                         page_map = m, page_info = info\<rparr>)))"
  by (simp add: main_def Let_def split: prod.split sum.split)

lemma main_session_independent:
  "fst (main g lower_ext re_ext geodesic fmt inp \<lparr>st_locations = df, st_session = s\<rparr>) =
   fst (main g lower_ext re_ext geodesic fmt inp \<lparr>st_locations = df, st_session = s'\<rparr>)"
proof -
  have eq: "fst (choose_request lower_ext re_ext df (search_term inp) (selected_location inp)
                  (init_session s))
      = fst (choose_request lower_ext re_ext df (search_term inp) (selected_location inp)
                  (init_session s'))"
    by (rule fst_choose_request)
  show ?thesis
    by (simp add: fst_main eq cong: sum.case_cong prod.case_cong)
qed

end
